theory Spec2Isabelle
  imports Main "HOL-Library.Monad_Syntax" "HOL-Library.Sublist"
begin

section \<open>Errors\<close>

text \<open>
  Go's \<^verbatim>\<open>error\<close> values of \<^verbatim>\<open>pkg/plugins/manager/managerv2.go\<close>. A nil error is
  \<open>None\<close> of \<open>error option\<close>. The sentinels are the package-level variables the manager
  compares against; \<open>ErrorString\<close> is what \<^verbatim>\<open>errors.New\<close> and \<^verbatim>\<open>fmt.Errorf\<close> (without
  \<^verbatim>\<open>%w\<close>) build; \<open>Wrap\<close> is \<^verbatim>\<open>errutil.Wrap(message, err)\<close>, which keeps \<open>err\<close> reachable
  by \<^verbatim>\<open>errors.Unwrap\<close>.
\<close>

datatype error =
    EOF
  | Canceled
  | DeadlineExceeded
  | ErrMethodNotImplemented
  | ErrPluginUnavailable
  | ErrPluginNotRegistered
  | ErrHealthCheckFailed
  | ErrPluginNotInstalled
  | ErrUninstallCorePlugin
  | ErrUninstallOutsideOfPluginDir
  | ErrorString string
  | Wrap string error

text \<open>\<^verbatim>\<open>errors.Is(err, target)\<close>: \<open>err\<close> or an error it wraps is \<open>target\<close>.\<close>

fun errors_Is :: "error \<Rightarrow> error \<Rightarrow> bool" where
  "errors_Is (Wrap msg e) target = (Wrap msg e = target \<or> errors_Is e target)"
| "errors_Is e target = (e = target)"

section \<open>The plugin entity\<close>

datatype PluginClass = Core | Bundled | External

record DataSourceInstanceSettings =
  URL :: string

record PluginContext =
  PluginID :: string
  DataSourceInstanceSettings :: "DataSourceInstanceSettings option"

record QueryDataRequest =
  PluginContext :: PluginContext
  Queries :: "string list"

record QueryDataResponse =
  Responses :: "string \<rightharpoonup> string"

record CollectMetricsResult =
  PrometheusMetrics :: string

record CheckHealthResult =
  Status :: int
  Message :: string
  JSONDetails :: string

text \<open>
  Modelled from the spec: \<^verbatim>\<open>plugins.PluginV2\<close> is declared in \<^verbatim>\<open>pkg/plugins\<close>, outside the
  files at hand. The fields are the ones the manager reads (\<open>ID\<close>, \<open>Class\<close>, \<open>PluginDir\<close>),
  the one-way \<open>decommissioned\<close> flag of the data model, and, for each method of the
  backend client the manager invokes, what that call returns (a Go pair of a result
  pointer and an error).
\<close>

record PluginV2 =
  ID :: string
  Class :: PluginClass
  PluginDir :: string
  decommissioned :: bool
  plugin_QueryData :: "QueryDataRequest \<Rightarrow> QueryDataResponse option \<times> error option"
  plugin_CollectMetrics :: "CollectMetricsResult option \<times> error option"
  plugin_CheckHealth :: "PluginContext \<Rightarrow> CheckHealthResult option \<times> error option"
  plugin_Stop :: "error option"

text \<open>
  Modelled from the spec: the methods of \<^verbatim>\<open>plugins.PluginV2\<close> the manager calls on the
  entity itself. \<open>IsDecommissioned\<close> reads the flag, \<open>Decommission\<close> sets it (one way) and
  returns no error, and a plugin is external when its class is \<open>External\<close>.
\<close>

definition IsDecommissioned :: "PluginV2 \<Rightarrow> bool" where
  "IsDecommissioned p = decommissioned p"

definition IsExternalPlugin :: "PluginV2 \<Rightarrow> bool" where
  "IsExternalPlugin p = (Class p = External)"

definition Decommission :: "PluginV2 \<Rightarrow> error option \<times> PluginV2" where
  "Decommission p = (None, p\<lparr>decommissioned := True\<rparr>)"

section \<open>The manager and its lock\<close>

text \<open>
  \<^verbatim>\<open>sync.RWMutex\<close> as seen by the one goroutine the model follows: an operation that
  cannot proceed never returns, which is the value \<open>None\<close>.
\<close>

record RWMutex =
  writer :: bool
  readers :: nat

text \<open>
  The manager: the configured plugins root (\<^verbatim>\<open>Cfg.PluginsPath\<close>), the injected request
  validator, the registry map with its lock, and the installer with the directories it has
  been asked to delete.
\<close>

datatype HttpRequest = HttpRequest string

record PluginManagerV2 =
  PluginsPath :: string
  Validate :: "string \<Rightarrow> HttpRequest option \<Rightarrow> error option"
  plugins :: "string \<rightharpoonup> PluginV2"
  pluginsMu :: RWMutex
  installer_Uninstall :: "string \<Rightarrow> error option"
  uninstalled :: "string list"

definition unlocked :: RWMutex where
  "unlocked = \<lparr>writer = False, readers = 0\<rparr>"

definition RLock :: "PluginManagerV2 \<Rightarrow> PluginManagerV2 option" where
  "RLock m = (if writer (pluginsMu m) then None
              else Some (m\<lparr>pluginsMu := (pluginsMu m)\<lparr>readers := Suc (readers (pluginsMu m))\<rparr>\<rparr>))"

definition RUnlock :: "PluginManagerV2 \<Rightarrow> PluginManagerV2 option" where
  "RUnlock m = (if readers (pluginsMu m) = 0 then None
                else Some (m\<lparr>pluginsMu := (pluginsMu m)\<lparr>readers := readers (pluginsMu m) - 1\<rparr>\<rparr>))"

definition Lock :: "PluginManagerV2 \<Rightarrow> PluginManagerV2 option" where
  "Lock m = (if writer (pluginsMu m) \<or> readers (pluginsMu m) > 0 then None
             else Some (m\<lparr>pluginsMu := (pluginsMu m)\<lparr>writer := True\<rparr>\<rparr>))"

definition Unlock :: "PluginManagerV2 \<Rightarrow> PluginManagerV2 option" where
  "Unlock m = (if writer (pluginsMu m) then Some (m\<lparr>pluginsMu := (pluginsMu m)\<lparr>writer := False\<rparr>\<rparr>)
               else None)"

section \<open>Registry\<close>

text \<open>
  \<^verbatim>\<open>Plugin(pluginID)\<close>: the map is read under the read lock, the decommission check is made
  on the entity read, after the lock is released. The lock is back in the state it was
  found in, so only the result is returned.
\<close>

definition Plugin :: "PluginManagerV2 \<Rightarrow> string \<Rightarrow> PluginV2 option option" where
  "Plugin m pluginID = do {
     m1 \<leftarrow> RLock m;
     let r = plugins m1 pluginID;
     m2 \<leftarrow> RUnlock m1;
     Some (case r of
             None \<Rightarrow> None
           | Some p \<Rightarrow> if IsDecommissioned p then None else Some p)
   }"

definition already_registered :: "string \<Rightarrow> error" where
  "already_registered pluginID = ErrorString (''plugin '' @ pluginID @ '' already registered'')"

definition Register :: "PluginManagerV2 \<Rightarrow> PluginV2 \<Rightarrow> (error option \<times> PluginManagerV2) option" where
  "Register m p = do {
     m1 \<leftarrow> Lock m;
     let pluginID = ID p;
     let (err, m2) =
        (if plugins m1 pluginID \<noteq> None then (Some (already_registered pluginID), m1)
         else (None, m1\<lparr>plugins := (plugins m1)(pluginID \<mapsto> p)\<rparr>));
     m3 \<leftarrow> Unlock m2;
     Some (err, m3)
   }"


definition not_registered :: "string \<Rightarrow> error" where
  "not_registered pluginID = ErrorString (''plugin '' @ pluginID @ '' is not registered'')"

definition IsRegistered :: "PluginManagerV2 \<Rightarrow> string \<Rightarrow> bool option" where
  "IsRegistered m pluginID = do {
     p \<leftarrow> Plugin m pluginID;
     Some (case p of None \<Rightarrow> False | Some p \<Rightarrow> \<not> IsDecommissioned p)
   }"

text \<open>
  \<^verbatim>\<open>UnregisterAndStop\<close> takes the write lock and then calls \<^verbatim>\<open>Plugin\<close>, which asks for
  the read lock. The entity in the map is the object \<^verbatim>\<open>Decommission\<close> marks, so the map
  entry is updated with it.
\<close>

definition UnregisterAndStop ::
  "PluginManagerV2 \<Rightarrow> string \<Rightarrow> (error option \<times> PluginManagerV2) option" where
  "UnregisterAndStop m pluginID = do {
     m1 \<leftarrow> Lock m;
     found \<leftarrow> Plugin m1 pluginID;
     let (err, m2) =
        (case found of
           None \<Rightarrow> (Some (not_registered pluginID), m1)
         | Some p \<Rightarrow>
             (let (derr, p') = Decommission p;
                  m1' = m1\<lparr>plugins := (plugins m1)(pluginID \<mapsto> p')\<rparr>
              in case derr of
                   Some e \<Rightarrow> (Some e, m1')
                 | None \<Rightarrow>
                     (case plugin_Stop p' of
                        Some e \<Rightarrow> (Some e, m1')
                      | None \<Rightarrow> (None, m1'\<lparr>plugins := (plugins m1')(pluginID := None)\<rparr>))));
     m3 \<leftarrow> Unlock m2;
     Some (err, m3)
   }"

definition unregister ::
  "PluginManagerV2 \<Rightarrow> PluginV2 \<Rightarrow> (error option \<times> PluginManagerV2) option" where
  "unregister m plugin = do {
     m1 \<leftarrow> Lock m;
     let m2 = m1\<lparr>plugins := (plugins m1)(ID plugin := None)\<rparr>;
     m3 \<leftarrow> Unlock m2;
     Some (None, m3)
   }"

section \<open>Request dispatch\<close>

text \<open>
  Modelled from the spec: the \<^verbatim>\<open>instrumentation\<close> package is outside the files at hand.
  Its wrappers run the closure they are given and hand its error back; the closure stores
  the plugin's response. The pair is what the plugin's method returned.
\<close>

definition instrument :: "string \<Rightarrow> 'a \<times> error option \<Rightarrow> 'a \<times> error option" where
  "instrument pluginID r = r"

definition QueryData ::
  "PluginManagerV2 \<Rightarrow> QueryDataRequest \<Rightarrow> (QueryDataResponse option \<times> error option) option" where
  "QueryData m req = do {
     plugin \<leftarrow> Plugin m (PluginID (PluginContext req));
     Some (case plugin of
        None \<Rightarrow> (Some \<lparr>Responses = Map.empty\<rparr>, None)
      | Some p \<Rightarrow>
          (let (resp, err) = instrument (PluginID (PluginContext req)) (plugin_QueryData p req)
           in case err of
                Some e \<Rightarrow>
                  if errors_Is e ErrMethodNotImplemented then (None, Some e)
                  else if errors_Is e ErrPluginUnavailable then (None, Some e)
                  else (None, Some (Wrap ''failed to query data'' e))
              | None \<Rightarrow> (resp, None)))
   }"

definition CollectMetrics ::
  "PluginManagerV2 \<Rightarrow> string \<Rightarrow> (CollectMetricsResult option \<times> error option) option" where
  "CollectMetrics m pluginID = do {
     found \<leftarrow> Plugin m pluginID;
     Some (case found of
        None \<Rightarrow> (None, Some ErrPluginNotRegistered)
      | Some p \<Rightarrow>
          (let (resp, err) = instrument (ID p) (plugin_CollectMetrics p)
           in case err of
                Some e \<Rightarrow> (None, Some e)
              | None \<Rightarrow> (resp, None)))
   }"

definition StatusForbidden :: int where
  "StatusForbidden = 403"

text \<open>
  The data-source URL handed to the validator: empty unless the context carries
  data-source settings.
\<close>

definition dataSourceURL :: "PluginContext \<Rightarrow> string" where
  "dataSourceURL pluginContext =
     (case DataSourceInstanceSettings pluginContext of
        None \<Rightarrow> []
      | Some settings \<Rightarrow> URL settings)"

definition CheckHealth ::
  "PluginManagerV2 \<Rightarrow> PluginContext \<Rightarrow> (CheckHealthResult option \<times> error option) option" where
  "CheckHealth m pluginContext =
    (let dsURL = dataSourceURL pluginContext
     in case Validate m dsURL None of
          Some verr \<Rightarrow>
            Some (Some \<lparr>Status = StatusForbidden, Message = ''Access denied'', JSONDetails = []\<rparr>, None)
        | None \<Rightarrow> do {
            found \<leftarrow> Plugin m (PluginID pluginContext);
            Some (case found of
               None \<Rightarrow> (None, Some ErrPluginNotRegistered)
             | Some p \<Rightarrow>
                 (let (resp, err) = instrument (ID p) (plugin_CheckHealth p pluginContext)
                  in case err of
                       Some e \<Rightarrow>
                         if errors_Is e ErrMethodNotImplemented then (None, Some e)
                         else if errors_Is e ErrPluginUnavailable then (None, Some e)
                         else (None, Some (Wrap ''failed to check plugin health'' ErrHealthCheckFailed))
                     | None \<Rightarrow> (resp, None)))
          })"


section \<open>Relative paths\<close>

text \<open>
  \<^verbatim>\<open>filepath.Clean\<close> and \<^verbatim>\<open>filepath.Rel\<close> of Go's standard library, for Unix paths (the
  separator is the slash, there is no volume name). \<open>Clean\<close> applies the library's rules
  to the path elements: empty elements and \<open>.\<close> are dropped, \<open>..\<close> removes the element
  before it, \<open>..\<close> at the start of a rooted path is dropped, and the empty result is \<open>.\<close>.
\<close>

definition Separator :: char where
  "Separator = CHR ''/''"

fun split_path :: "string \<Rightarrow> string list" where
  "split_path [] = [[]]"
| "split_path (c # cs) =
     (if c = Separator then [] # split_path cs
      else (case split_path cs of
              [] \<Rightarrow> [[c]]
            | e # es \<Rightarrow> (c # e) # es))"

fun join_path :: "string list \<Rightarrow> string" where
  "join_path [] = []"
| "join_path [e] = e"
| "join_path (e # es) = e @ [Separator] @ join_path es"

fun clean_elems :: "bool \<Rightarrow> string list \<Rightarrow> string list \<Rightarrow> string list" where
  "clean_elems rooted out [] = rev out"
| "clean_elems rooted out (e # es) =
     (if e = [] \<or> e = ''.'' then clean_elems rooted out es
      else if e = ''..'' then
        (case out of
           [] \<Rightarrow> if rooted then clean_elems rooted [] es
                 else clean_elems rooted [''..''] es
         | prev # kept \<Rightarrow>
             if prev = ''..'' then clean_elems rooted (''..'' # out) es
             else clean_elems rooted kept es)
      else clean_elems rooted (e # out) es)"

definition Clean :: "string \<Rightarrow> string" where
  "Clean path =
    (case path of
       [] \<Rightarrow> ''.''
     | c # cs \<Rightarrow>
         (let rooted = (c = Separator);
              elems = clean_elems rooted [] (split_path path)
          in if rooted then Separator # join_path elems
             else if elems = [] then ''.''
             else join_path elems))"

text \<open>
  The loop of \<open>Rel\<close> that walks both paths element by element. The arguments are what is
  left of \<open>base\<close> and \<open>targ\<close>; the result is the base element the walk stopped at (empty
  when one path ran out) and what is left of both paths from there.
\<close>

function rel_position :: "string \<Rightarrow> string \<Rightarrow> string \<times> string \<times> string" where
  "rel_position base targ =
     (if base = [] \<or> targ = [] then ([], base, targ)
      else
        (let b = takeWhile (\<lambda>c. c \<noteq> Separator) base;
             t = takeWhile (\<lambda>c. c \<noteq> Separator) targ
         in if t \<noteq> b then (b, base, targ)
            else rel_position (drop 1 (dropWhile (\<lambda>c. c \<noteq> Separator) base))
                              (drop 1 (dropWhile (\<lambda>c. c \<noteq> Separator) targ))))"
  by pat_completeness auto
termination
proof (relation "measure (\<lambda>(base, targ). length base)")
  show "wf (measure (\<lambda>(base, targ). length base))" by simp
next
  fix base targ :: string and b t :: string
  assume "\<not> (base = [] \<or> targ = [])"
  then have ne: "base \<noteq> []" by simp
  have le: "length (dropWhile (\<lambda>c. c \<noteq> Separator) base) \<le> length base"
    by (rule length_dropWhile_le)
  from ne have pos: "0 < length base" by simp
  have "length (drop 1 (dropWhile (\<lambda>c. c \<noteq> Separator) base)) < length base"
    unfolding length_drop using pos le by arith
  then show "((drop 1 (dropWhile (\<lambda>c. c \<noteq> Separator) base),
               drop 1 (dropWhile (\<lambda>c. c \<noteq> Separator) targ)), (base, targ))
             \<in> measure (\<lambda>(base, targ). length base)"
    by simp
qed

declare rel_position.simps [simp del]

definition rel_error :: "string \<Rightarrow> string \<Rightarrow> error" where
  "rel_error basepath targpath =
     ErrorString (''Rel: can't make '' @ targpath @ '' relative to '' @ basepath)"

definition Rel :: "string \<Rightarrow> string \<Rightarrow> error + string" where
  "Rel basepath targpath =
    (let base = Clean basepath; targ = Clean targpath in
     if targ = base then Inr ''.''
     else
       (let base = (if base = ''.'' then [] else base);
            baseSlashed = (case base of [] \<Rightarrow> False | c # cs \<Rightarrow> c = Separator);
            targSlashed = (case targ of [] \<Rightarrow> False | c # cs \<Rightarrow> c = Separator)
        in if baseSlashed \<noteq> targSlashed then Inl (rel_error basepath targpath)
           else
             (let (b, brest, trest) = rel_position base targ
              in if b = ''..'' then Inl (rel_error basepath targpath)
                 else if brest \<noteq> [] then
                   Inr (''..'' @ concat (replicate (count_list brest Separator) (Separator # ''..''))
                        @ (if trest \<noteq> [] then Separator # trest else []))
                 else Inr trest)))"

section \<open>Uninstall\<close>

text \<open>
  Modelled from the spec: the installer (\<^verbatim>\<open>pkg/plugins/manager/installer\<close>) is outside the
  files at hand. Its \<^verbatim>\<open>Uninstall(ctx, dir)\<close> deletes the on-disk files of \<open>dir\<close>: the
  directory is recorded in \<open>uninstalled\<close>, and the call returns what \<open>installer_Uninstall\<close>
  gives for it.
\<close>

definition pluginInstaller_Uninstall ::
  "PluginManagerV2 \<Rightarrow> string \<Rightarrow> error option \<times> PluginManagerV2" where
  "pluginInstaller_Uninstall m dir =
     (installer_Uninstall m dir, m\<lparr>uninstalled := uninstalled m @ [dir]\<rparr>)"

definition Uninstall ::
  "PluginManagerV2 \<Rightarrow> string \<Rightarrow> (error option \<times> PluginManagerV2) option" where
  "Uninstall m pluginID = do {
     found \<leftarrow> Plugin m pluginID;
     case found of
       None \<Rightarrow> Some (Some ErrPluginNotInstalled, m)
     | Some plugin \<Rightarrow>
         if \<not> IsExternalPlugin plugin then Some (Some ErrUninstallCorePlugin, m)
         else
           (case Rel (PluginsPath m) (PluginDir plugin) of
              Inl err \<Rightarrow> Some (Some ErrUninstallOutsideOfPluginDir, m)
            | Inr path \<Rightarrow>
                if prefix (''..'' @ [Separator]) path
                then Some (Some ErrUninstallOutsideOfPluginDir, m)
                else do {
                  registered \<leftarrow> IsRegistered m pluginID;
                  (err, m1) \<leftarrow> (if registered then UnregisterAndStop m pluginID
                                else Some (None, m));
                  case err of
                    Some e \<Rightarrow> Some (Some e, m1)
                  | None \<Rightarrow> do {
                      (err2, m2) \<leftarrow> unregister m1 plugin;
                      case err2 of
                        Some e \<Rightarrow> Some (Some e, m2)
                      | None \<Rightarrow> Some (pluginInstaller_Uninstall m2 (PluginDir plugin))
                    }
                })
   }"


section \<open>Resource stream bridge\<close>

text \<open>
  A chunk of a resource response. \<open>Headers\<close> is a Go map that may be nil (\<open>None\<close>); the
  list gives its entries, with distinct keys, in the order the \<^verbatim>\<open>range\<close> loop visits them
  (Go fixes no order; an entry the loop's caller adds is put last). \<open>StatusCode\<close> is the
  chunk's \<^verbatim>\<open>Status\<close> field.
\<close>

record CallResourceResponse =
  StatusCode :: int
  Headers :: "(string \<times> string list) list option"
  Body :: string

text \<open>
  \<^verbatim>\<open>http.Header.Add\<close> of Go's standard library stores a value under the canonical form of
  the key (\<^verbatim>\<open>textproto.CanonicalMIMEHeaderKey\<close>): a key made of header-token bytes gets
  its first letter and every letter after a hyphen in upper case and the others in lower
  case; any other key is left as it is.
\<close>

definition lower_letters :: string where
  "lower_letters = ''abcdefghijklmnopqrstuvwxyz''"

definition upper_letters :: string where
  "upper_letters = ''ABCDEFGHIJKLMNOPQRSTUVWXYZ''"

definition validHeaderFieldByte :: "char \<Rightarrow> bool" where
  "validHeaderFieldByte c =
     (c \<in> set (lower_letters @ upper_letters @ ''0123456789'' @
        [CHR ''!'', CHR ''#'', CHR ''$'', CHR ''%'', CHR ''&'', CHR 0x27, CHR ''*'', CHR ''+'',
         CHR ''-'', CHR ''.'', CHR ''^'', CHR ''_'', CHR 0x60, CHR ''|'', CHR ''~'']))"

definition to_upper :: "char \<Rightarrow> char" where
  "to_upper c = (case map_of (zip lower_letters upper_letters) c of Some u \<Rightarrow> u | None \<Rightarrow> c)"

definition to_lower :: "char \<Rightarrow> char" where
  "to_lower c = (case map_of (zip upper_letters lower_letters) c of Some l \<Rightarrow> l | None \<Rightarrow> c)"

fun canonical_bytes :: "bool \<Rightarrow> string \<Rightarrow> string" where
  "canonical_bytes upper [] = []"
| "canonical_bytes upper (c # cs) =
     (let c' = (if upper then to_upper c else to_lower c)
      in c' # canonical_bytes (c' = CHR ''-'') cs)"

definition CanonicalMIMEHeaderKey :: "string \<Rightarrow> string" where
  "CanonicalMIMEHeaderKey s = (if list_all validHeaderFieldByte s then canonical_bytes True s else s)"

type_synonym Header = "string \<rightharpoonup> string list"

definition Header_Add :: "Header \<Rightarrow> string \<Rightarrow> string \<Rightarrow> Header" where
  "Header_Add h key v =
     (let k = CanonicalMIMEHeaderKey key
      in h(k \<mapsto> (case h k of None \<Rightarrow> [v] | Some vs \<Rightarrow> vs @ [v])))"

text \<open>
  The \<^verbatim>\<open>http.ResponseWriter\<close> handed to \<^verbatim>\<open>flushStream\<close>: its header map, the calls made
  on it in order, whether it is an \<^verbatim>\<open>http.Flusher\<close>, and the error its \<^verbatim>\<open>Write\<close> returns.
\<close>

datatype writer_call = WriteHeader int | Write string | Flush

record ResponseWriter =
  header :: Header
  calls :: "writer_call list"
  flusher :: bool
  write_result :: "error option"

definition w_WriteHeader :: "ResponseWriter \<Rightarrow> int \<Rightarrow> ResponseWriter" where
  "w_WriteHeader w status = w\<lparr>calls := calls w @ [WriteHeader status]\<rparr>"

definition w_Write :: "ResponseWriter \<Rightarrow> string \<Rightarrow> error option \<times> ResponseWriter" where
  "w_Write w body = (write_result w, w\<lparr>calls := calls w @ [Write body]\<rparr>)"

definition w_Flush :: "ResponseWriter \<Rightarrow> ResponseWriter" where
  "w_Flush w = w\<lparr>calls := calls w @ [Flush]\<rparr>"

text \<open>The inner loop over the values of one header, and the loop over the headers.\<close>

fun addValues :: "Header \<Rightarrow> string \<Rightarrow> string list \<Rightarrow> Header" where
  "addValues h k [] = h"
| "addValues h k (v # vs) = addValues (Header_Add h k v) k vs"

fun copyHeaders :: "Header \<Rightarrow> (string \<times> string list) list \<Rightarrow> Header" where
  "copyHeaders h [] = h"
| "copyHeaders h ((k, values) # rest) =
     (if k = ''Set-Cookie'' then copyHeaders h rest
      else copyHeaders (addValues h k values) rest)"

text \<open>
  The default for a missing \<open>Content-Type\<close> key. The code stores the entry in the map
  before the loop, and Go's \<^verbatim>\<open>range\<close> may visit it at any position; here it is visited
  last. The position shows only in the order of the values when another key of the map
  has the canonical form \<open>Content-Type\<close>.
\<close>

definition ensureContentType :: "(string \<times> string list) list \<Rightarrow> (string \<times> string list) list" where
  "ensureContentType hs =
     (if map_of hs ''Content-Type'' = None then hs @ [(''Content-Type'', [''application/json''])]
      else hs)"

definition writeHeaders :: "ResponseWriter \<Rightarrow> int \<Rightarrow> (string \<times> string list) list \<Rightarrow> ResponseWriter" where
  "writeHeaders w status hs =
     w_WriteHeader (w\<lparr>header := copyHeaders (header w) (ensureContentType hs)\<rparr>) status"

text \<open>
  The stream \<^verbatim>\<open>callResourceResponseStream\<close>: \<open>recvs\<close> lists what the coming calls of
  \<^verbatim>\<open>Recv\<close> return (Go pairs of a response pointer and an error), \<open>closed\<close> is the flag
  \<^verbatim>\<open>Close\<close> sets. A \<^verbatim>\<open>Recv\<close> with nothing left to return blocks.
\<close>

type_synonym recv_result = "CallResourceResponse option \<times> error option"

record callResourceResponseStream =
  recvs :: "recv_result list"
  closed :: bool

definition Close :: "callResourceResponseStream \<Rightarrow> error option \<times> callResourceResponseStream" where
  "Close s = (if closed s then (Some (ErrorString ''cannot close a closed stream''), s)
              else (None, s\<lparr>closed := True\<rparr>))"

type_synonym logger = "(string \<times> error) list"

text \<open>
  What the loop of \<^verbatim>\<open>flushStream\<close> does with a chunk it received, \<open>processedStreams\<close>
  chunks having been done before: headers and status for the first chunk that has
  headers, then the body, then the flush.
\<close>

definition writeChunk ::
  "nat \<Rightarrow> CallResourceResponse \<Rightarrow> ResponseWriter \<Rightarrow> logger \<Rightarrow> ResponseWriter \<times> logger" where
  "writeChunk processedStreams r w lg =
     (let w1 = (case Headers r of
                  Some hs \<Rightarrow> if processedStreams = 0 then writeHeaders w (StatusCode r) hs else w
                | None \<Rightarrow> w);
          (werr, w2) = w_Write w1 (Body r);
          lg2 = (case werr of
                   Some e \<Rightarrow> lg @ [(''Failed to write resource response'', e)]
                 | None \<Rightarrow> lg);
          w3 = (if flusher w2 then w_Flush w2 else w2)
      in (w3, lg2))"

text \<open>
  The loop of \<^verbatim>\<open>flushStream\<close>, entered with \<open>processedStreams\<close> chunks done. The result
  is the returned error with the stream, the writer and the plugin's error log as the run
  left them; \<open>None\<close> when the run does not return (a \<^verbatim>\<open>Recv\<close> that blocks, or a nil
  response with a nil error, which the loop dereferences).
\<close>

fun flushStream_loop ::
  "nat \<Rightarrow> recv_result list \<Rightarrow> bool \<Rightarrow> ResponseWriter \<Rightarrow> logger \<Rightarrow>
   (error option \<times> callResourceResponseStream \<times> ResponseWriter \<times> logger) option" where
  "flushStream_loop processedStreams [] cl w lg = None"
| "flushStream_loop processedStreams ((resp, err) # rest) cl w lg =
     (case err of
        Some e \<Rightarrow>
          if errors_Is e EOF then
            (if processedStreams = 0
             then Some (Some (ErrorString ''received empty resource response''),
                        \<lparr>recvs = rest, closed = cl\<rparr>, w, lg)
             else Some (None, \<lparr>recvs = rest, closed = cl\<rparr>, w, lg))
          else if processedStreams = 0
          then Some (Some (Wrap ''failed to receive response from resource call'' e),
                     \<lparr>recvs = rest, closed = cl\<rparr>, w, lg)
          else
            (let lg1 = lg @ [(''Failed to receive response from resource call'', e)];
                 (cerr, s1) = Close \<lparr>recvs = rest, closed = cl\<rparr>
             in Some (cerr, s1, w, lg1))
      | None \<Rightarrow>
          (case resp of
             None \<Rightarrow> None
           | Some r \<Rightarrow>
               (let (w3, lg2) = writeChunk processedStreams r w lg
                in flushStream_loop (Suc processedStreams) rest cl w3 lg2)))"

definition flushStream ::
  "callResourceResponseStream \<Rightarrow> ResponseWriter \<Rightarrow>
   (error option \<times> callResourceResponseStream \<times> ResponseWriter \<times> logger) option" where
  "flushStream stream w = flushStream_loop 0 (recvs stream) (closed stream) w []"

section \<open>Process supervision\<close>

text \<open>
  One round of the \<^verbatim>\<open>select\<close> of \<^verbatim>\<open>restartKilledProcess\<close>: the context is done, with what
  \<^verbatim>\<open>ctx.Err()\<close> returns, or the ticker fires, with what \<^verbatim>\<open>p.IsDecommissioned()\<close>,
  \<^verbatim>\<open>p.Exited()\<close> and \<^verbatim>\<open>p.Start(ctx)\<close> return when the loop asks at that tick.
\<close>

datatype supervision_event =
    CtxDone "error option"
  | Tick bool bool "error option"

datatype supervision_action =
    StartCalled
  | LogDebug string
  | LogError string error

text \<open>
  The loop over the rounds still to come; \<open>acts\<close> is what it has done so far. The first
  component is \<open>None\<close> while the loop has not returned, \<open>Some err\<close> once it has.
\<close>

fun restartKilledProcess ::
  "supervision_event list \<Rightarrow> supervision_action list \<Rightarrow> error option option \<times> supervision_action list" where
  "restartKilledProcess [] acts = (None, acts)"
| "restartKilledProcess (CtxDone cerr # evs) acts =
     (case cerr of
        Some e \<Rightarrow> if \<not> errors_Is e Canceled then (Some (Some e), acts) else (Some None, acts)
      | None \<Rightarrow> (Some None, acts))"
| "restartKilledProcess (Tick dec exited started # evs) acts =
     (if dec then (Some None, acts @ [LogDebug ''Plugin decommissioned''])
      else if \<not> exited then restartKilledProcess evs acts
      else
        (let acts1 = acts @ [LogDebug ''Restarting plugin'', StartCalled]
         in case started of
              Some e \<Rightarrow> restartKilledProcess evs (acts1 @ [LogError ''Failed to restart plugin'' e])
            | None \<Rightarrow> restartKilledProcess evs (acts1 @ [LogDebug ''Plugin restarted''])))"


section \<open>Notions used to state the properties\<close>

text \<open>A received chunk, as \<^verbatim>\<open>Recv\<close> returns it: a response and a nil error.\<close>

definition chunk :: "CallResourceResponse \<Rightarrow> recv_result" where
  "chunk r = (Some r, None)"

text \<open>The writer and the log after the chunks \<open>rs\<close>, \<open>n\<close> chunks having been done before.\<close>

fun writeChunks ::
  "nat \<Rightarrow> CallResourceResponse list \<Rightarrow> ResponseWriter \<Rightarrow> logger \<Rightarrow> ResponseWriter \<times> logger" where
  "writeChunks n [] w lg = (w, lg)"
| "writeChunks n (r # rs) w lg =
     (let (w', lg') = writeChunk n r w lg in writeChunks (Suc n) rs w' lg')"

text \<open>
  The rounds that end the supervision loop (the context is done, or the tick finds the
  plugin decommissioned) and the rounds at which it restarts the plugin (the tick finds
  it not decommissioned and exited).
\<close>

definition ends_loop :: "supervision_event \<Rightarrow> bool" where
  "ends_loop ev = (case ev of CtxDone cerr \<Rightarrow> True | Tick dec exited started \<Rightarrow> dec)"

definition restarts :: "supervision_event \<Rightarrow> bool" where
  "restarts ev = (case ev of CtxDone cerr \<Rightarrow> False | Tick dec exited started \<Rightarrow> \<not> dec \<and> exited)"

subsection \<open>Concrete states\<close>

definition sample_plugin :: "string \<Rightarrow> PluginClass \<Rightarrow> string \<Rightarrow> bool \<Rightarrow> PluginV2" where
  "sample_plugin pluginID cls dir dec =
     \<lparr>ID = pluginID, Class = cls, PluginDir = dir, decommissioned = dec,
      plugin_QueryData = (\<lambda>req. (None, Some (ErrorString ''connection refused''))),
      plugin_CollectMetrics = (Some \<lparr>PrometheusMetrics = ''up 1''\<rparr>, None),
      plugin_CheckHealth = (\<lambda>pc. (None, Some (ErrorString ''connection refused''))),
      plugin_Stop = None\<rparr>"

definition sample_manager :: "(string \<rightharpoonup> PluginV2) \<Rightarrow> PluginManagerV2" where
  "sample_manager reg =
     \<lparr>PluginsPath = ''/var/lib/grafana/plugins'',
      Validate = (\<lambda>url req. if url = ''http://denied.example'' then Some (ErrorString ''denied'') else None),
      plugins = reg,
      pluginsMu = unlocked,
      installer_Uninstall = (\<lambda>dir. None),
      uninstalled = []\<rparr>"

definition sample_context :: "string \<Rightarrow> string \<Rightarrow> PluginContext" where
  "sample_context pluginID url =
     \<lparr>PluginID = pluginID, DataSourceInstanceSettings = Some \<lparr>URL = url\<rparr>\<rparr>"

definition sample_request :: "string \<Rightarrow> QueryDataRequest" where
  "sample_request pluginID =
     \<lparr>PluginContext = \<lparr>PluginID = pluginID, DataSourceInstanceSettings = None\<rparr>, Queries = [''A'']\<rparr>"

definition sample_writer :: ResponseWriter where
  "sample_writer = \<lparr>header = Map.empty, calls = [], flusher = True, write_result = None\<rparr>"


section \<open>The registry\<close>

lemma RLock_RUnlock: "RLock m = Some m1 \<Longrightarrow> RUnlock m1 = Some m"
  by (auto simp: RLock_def RUnlock_def split: if_splits)

lemma Plugin_unblocked:
  "\<not> writer (pluginsMu m) \<Longrightarrow>
   Plugin m pluginID =
     Some (case plugins m pluginID of
             None \<Rightarrow> None
           | Some p \<Rightarrow> if IsDecommissioned p then None else Some p)"
  by (simp add: Plugin_def RLock_def RUnlock_def)

lemma Plugin_blocked: "writer (pluginsMu m) \<Longrightarrow> Plugin m pluginID = None"
  by (simp add: Plugin_def RLock_def)

lemma Plugin_eligible:
  "Plugin m pluginID = Some (Some p) \<Longrightarrow> plugins m pluginID = Some p \<and> \<not> IsDecommissioned p"
  by (auto simp: Plugin_def RLock_def RUnlock_def split: if_splits option.splits bind_splits)

lemma Register_unlocked:
  "pluginsMu m = unlocked \<Longrightarrow>
   Register m p =
     Some (if plugins m (ID p) \<noteq> None then (Some (already_registered (ID p)), m)
           else (None, m\<lparr>plugins := (plugins m)(ID p \<mapsto> p)\<rparr>))"
  by (cases m) (simp add: Register_def Lock_def Unlock_def unlocked_def)

lemma sample_manager_simps:
  "plugins (sample_manager reg) = reg"
  "pluginsMu (sample_manager reg) = unlocked"
  "PluginsPath (sample_manager reg) = ''/var/lib/grafana/plugins''"
  "uninstalled (sample_manager reg) = []"
  "Validate (sample_manager reg) url req =
     (if url = ''http://denied.example'' then Some (ErrorString ''denied'') else None)"
  by (simp_all add: sample_manager_def)

lemma sample_manager_unblocked: "\<not> writer (pluginsMu (sample_manager reg))"
  by (simp add: sample_manager_def unlocked_def)

lemma sample_plugin_simps:
  "ID (sample_plugin pluginID cls dir dec) = pluginID"
  "PluginDir (sample_plugin pluginID cls dir dec) = dir"
  "IsDecommissioned (sample_plugin pluginID cls dir dec) = dec"
  "IsExternalPlugin (sample_plugin pluginID cls dir dec) = (cls = External)"
  "plugin_QueryData (sample_plugin pluginID cls dir dec) req = (None, Some (ErrorString ''connection refused''))"
  "plugin_CheckHealth (sample_plugin pluginID cls dir dec) pc = (None, Some (ErrorString ''connection refused''))"
  by (simp_all add: sample_plugin_def IsDecommissioned_def IsExternalPlugin_def)

text \<open>
  C3. With the lock free, \<open>Register p\<close> fails with the already-registered error and
  leaves the manager as it was when the map has an entry under \<open>p\<close>'s id, whatever that
  entry is (decommissioned or not); otherwise it stores \<open>p\<close> under its id and succeeds.
  So after a successful \<open>Register p\<close>, registering any entity with the same id fails.
\<close>

theorem Register_unique:
  assumes "pluginsMu m = unlocked"
  shows "(\<forall>q. plugins m (ID p) = Some q \<longrightarrow>
            Register m p = Some (Some (already_registered (ID p)), m))
       \<and> (plugins m (ID p) = None \<longrightarrow>
            Register m p = Some (None, m\<lparr>plugins := (plugins m)(ID p \<mapsto> p)\<rparr>))
       \<and> (\<forall>m' (p' :: PluginV2). Register m p = Some (None, m') \<and> ID p' = ID p \<longrightarrow>
            Register m' p' = Some (Some (already_registered (ID p)), m'))"
proof (intro conjI allI impI)
  fix q assume "plugins m (ID p) = Some q"
  with assms show "Register m p = Some (Some (already_registered (ID p)), m)"
    by (simp add: Register_unlocked)
next
  assume "plugins m (ID p) = None"
  with assms show "Register m p = Some (None, m\<lparr>plugins := (plugins m)(ID p \<mapsto> p)\<rparr>)"
    by (simp add: Register_unlocked)
next
  fix m' and p' :: PluginV2
  assume a: "Register m p = Some (None, m') \<and> ID p' = ID p"
  with assms have m': "m' = m\<lparr>plugins := (plugins m)(ID p \<mapsto> p)\<rparr>"
    by (auto simp: Register_unlocked split: if_splits)
  with assms have "pluginsMu m' = unlocked" and "plugins m' (ID p') \<noteq> None"
    using a by simp_all
  then show "Register m' p' = Some (Some (already_registered (ID p)), m')"
    using a by (simp add: Register_unlocked)
qed

theorem Register_unique_witness:
  "pluginsMu (sample_manager Map.empty) = unlocked
   \<and> Register (sample_manager Map.empty) (sample_plugin ''loki'' External ''/p/loki'' False) =
       Some (None, (sample_manager Map.empty)\<lparr>plugins :=
          [''loki'' \<mapsto> sample_plugin ''loki'' External ''/p/loki'' False]\<rparr>)
   \<and> Register (sample_manager [''loki'' \<mapsto> sample_plugin ''loki'' Core ''/old'' True])
         (sample_plugin ''loki'' External ''/p/loki'' False) =
       Some (Some (ErrorString ''plugin loki already registered''),
             sample_manager [''loki'' \<mapsto> sample_plugin ''loki'' Core ''/old'' True])"
proof -
  let ?p = "sample_plugin ''loki'' External ''/p/loki'' False"
  let ?m0 = "sample_manager Map.empty"
  let ?m1 = "sample_manager [''loki'' \<mapsto> sample_plugin ''loki'' Core ''/old'' True]"
  have id: "ID ?p = ''loki''" by (simp add: sample_plugin_simps)
  have free0: "pluginsMu ?m0 = unlocked" and free1: "pluginsMu ?m1 = unlocked"
    by (simp_all add: sample_manager_simps)
  have absent: "plugins ?m0 (ID ?p) = None"
    by (simp add: sample_manager_simps)
  have present: "plugins ?m1 (ID ?p) = Some (sample_plugin ''loki'' Core ''/old'' True)"
    by (simp add: sample_manager_simps id)
  from Register_unique [OF free0, of ?p] absent
  have "Register ?m0 ?p = Some (None, ?m0\<lparr>plugins := (plugins ?m0)(ID ?p \<mapsto> ?p)\<rparr>)"
    by blast
  then have first: "Register ?m0 ?p = Some (None, ?m0\<lparr>plugins := [''loki'' \<mapsto> ?p]\<rparr>)"
    by (simp only: id sample_manager_simps)
  from Register_unique [OF free1, of ?p] present
  have "Register ?m1 ?p = Some (Some (already_registered (ID ?p)), ?m1)"
    by blast
  then have second: "Register ?m1 ?p = Some (Some (ErrorString ''plugin loki already registered''), ?m1)"
    by (simp add: id already_registered_def)
  from free0 first second show ?thesis by blast
qed

text \<open>
  C4. With no writer holding the lock, \<open>Plugin\<close> returns, and it returns nil exactly when
  the map has no entry under the id or the entry is decommissioned; a non-nil result is
  the stored entity. The check is made on the entity read from the map: once the stored
  entity has been marked by \<open>Decommission\<close>, the entry is still in the map and the lookup
  returns nil.
\<close>

theorem Plugin_nil_iff:
  assumes "\<not> writer (pluginsMu m)"
  shows "\<exists>r. Plugin m pluginID = Some r
       \<and> ((r = None) =
            (plugins m pluginID = None \<or> (\<exists>p. plugins m pluginID = Some p \<and> IsDecommissioned p)))
       \<and> (\<forall>p. r = Some p \<longrightarrow> plugins m pluginID = Some p)
       \<and> (\<forall>p. plugins m pluginID = Some p \<longrightarrow>
            plugins (m\<lparr>plugins := (plugins m)(pluginID \<mapsto> snd (Decommission p))\<rparr>) pluginID \<noteq> None \<and>
            Plugin (m\<lparr>plugins := (plugins m)(pluginID \<mapsto> snd (Decommission p))\<rparr>) pluginID = Some None)"
  using assms
  by (auto simp: Plugin_unblocked Decommission_def IsDecommissioned_def split: option.splits)

theorem Plugin_nil_iff_witness:
  "\<not> writer (pluginsMu (sample_manager [''loki'' \<mapsto> sample_plugin ''loki'' External ''/p/loki'' True]))
   \<and> Plugin (sample_manager [''loki'' \<mapsto> sample_plugin ''loki'' External ''/p/loki'' True]) ''loki'' = Some None
   \<and> Plugin (sample_manager [''loki'' \<mapsto> sample_plugin ''loki'' External ''/p/loki'' True]) ''tempo'' = Some None"
proof -
  let ?m = "sample_manager [''loki'' \<mapsto> sample_plugin ''loki'' External ''/p/loki'' True]"
  have free: "\<not> writer (pluginsMu ?m)"
    by (rule sample_manager_unblocked)
  from Plugin_nil_iff [OF free, of "''loki''"]
  have "Plugin ?m ''loki'' = Some None"
    by (auto simp: sample_manager_simps sample_plugin_simps)
  moreover from Plugin_nil_iff [OF free, of "''tempo''"]
  have "Plugin ?m ''tempo'' = Some None"
    by (auto simp: sample_manager_simps)
  ultimately show ?thesis using free by simp
qed


section \<open>Request dispatch\<close>

lemma sample_context_simps:
  "PluginID (sample_context pluginID url) = pluginID"
  "dataSourceURL (sample_context pluginID url) = url"
  by (simp_all add: sample_context_def dataSourceURL_def)

lemma sample_request_simps:
  "PluginID (PluginContext (sample_request pluginID)) = pluginID"
  by (simp add: sample_request_def)

text \<open>
  C5. With no writer holding the lock: when the map has no entry under the request's
  plugin id, or the entry is decommissioned, \<open>QueryData\<close> returns a response with no
  entries and a nil error. For a dispatch-eligible plugin whose call fails with \<open>e\<close>, the
  response is nil and the error is \<open>e\<close> itself when \<open>e\<close> is (by \<^verbatim>\<open>errors.Is\<close>) one of the
  sentinels \<open>ErrMethodNotImplemented\<close> and \<open>ErrPluginUnavailable\<close>, in particular when \<open>e\<close>
  is the sentinel, and \<open>e\<close> wrapped with the message "failed to query data" otherwise.
\<close>

theorem QueryData_dispatch:
  assumes "\<not> writer (pluginsMu m)"
  shows "(plugins m (PluginID (PluginContext req)) = None \<or>
          (\<exists>p. plugins m (PluginID (PluginContext req)) = Some p \<and> IsDecommissioned p)
          \<longrightarrow> QueryData m req = Some (Some \<lparr>Responses = Map.empty\<rparr>, None))
       \<and> (\<forall>p resp e. plugins m (PluginID (PluginContext req)) = Some p \<and> \<not> IsDecommissioned p
              \<and> plugin_QueryData p req = (resp, Some e) \<longrightarrow>
            QueryData m req =
              Some (None, Some (if errors_Is e ErrMethodNotImplemented \<or> errors_Is e ErrPluginUnavailable
                                then e else Wrap ''failed to query data'' e))
            \<and> (e = ErrMethodNotImplemented \<or> e = ErrPluginUnavailable
                 \<longrightarrow> QueryData m req = Some (None, Some e)))"
  using assms by (auto simp: QueryData_def Plugin_unblocked instrument_def)

theorem QueryData_dispatch_witness:
  "\<not> writer (pluginsMu (sample_manager [''loki'' \<mapsto> sample_plugin ''loki'' External ''/p/loki'' False]))
   \<and> QueryData (sample_manager [''loki'' \<mapsto> sample_plugin ''loki'' External ''/p/loki'' False])
        (sample_request ''tempo'') = Some (Some \<lparr>Responses = Map.empty\<rparr>, None)
   \<and> QueryData (sample_manager [''loki'' \<mapsto> sample_plugin ''loki'' External ''/p/loki'' False])
        (sample_request ''loki'') =
        Some (None, Some (Wrap ''failed to query data'' (ErrorString ''connection refused'')))"
proof -
  let ?p = "sample_plugin ''loki'' External ''/p/loki'' False"
  let ?m = "sample_manager [''loki'' \<mapsto> ?p]"
  have free: "\<not> writer (pluginsMu ?m)" by (rule sample_manager_unblocked)
  have absent: "plugins ?m (PluginID (PluginContext (sample_request ''tempo''))) = None"
    by (simp add: sample_manager_simps sample_request_simps)
  have present: "plugins ?m (PluginID (PluginContext (sample_request ''loki''))) = Some ?p
      \<and> \<not> IsDecommissioned ?p
      \<and> plugin_QueryData ?p (sample_request ''loki'') = (None, Some (ErrorString ''connection refused''))"
    by (simp add: sample_manager_simps sample_request_simps sample_plugin_simps)
  from QueryData_dispatch [OF free, of "sample_request ''tempo''"] absent
  have first: "QueryData ?m (sample_request ''tempo'') = Some (Some \<lparr>Responses = Map.empty\<rparr>, None)"
    by blast
  from QueryData_dispatch [OF free, of "sample_request ''loki''"] present
  have "QueryData ?m (sample_request ''loki'') =
      Some (None, Some (if errors_Is (ErrorString ''connection refused'') ErrMethodNotImplemented
                          \<or> errors_Is (ErrorString ''connection refused'') ErrPluginUnavailable
                        then ErrorString ''connection refused''
                        else Wrap ''failed to query data'' (ErrorString ''connection refused'')))"
    by blast
  then have second: "QueryData ?m (sample_request ''loki'') =
      Some (None, Some (Wrap ''failed to query data'' (ErrorString ''connection refused'')))"
    by simp
  from free first second show ?thesis by blast
qed

text \<open>
  C7. When the validator rejects the data-source URL, \<open>CheckHealth\<close> returns a result with
  status 403 and message "Access denied" and a nil error. When validation passes and the
  dispatch-eligible plugin's call fails with \<open>e\<close>, an \<open>e\<close> that is neither sentinel gives
  the one error that wraps \<open>ErrHealthCheckFailed\<close>, in which \<open>e\<close> does not occur; an \<open>e\<close>
  that is one of the two sentinels is returned as it is.
\<close>

theorem CheckHealth_outcomes:
  "(\<forall>verr. Validate m (dataSourceURL pc) None = Some verr \<longrightarrow>
      CheckHealth m pc =
        Some (Some \<lparr>Status = 403, Message = ''Access denied'', JSONDetails = []\<rparr>, None))
   \<and> (\<forall>p resp e. Validate m (dataSourceURL pc) None = None \<and> \<not> writer (pluginsMu m)
          \<and> plugins m (PluginID pc) = Some p \<and> \<not> IsDecommissioned p
          \<and> plugin_CheckHealth p pc = (resp, Some e) \<longrightarrow>
        CheckHealth m pc =
          Some (None, Some (if errors_Is e ErrMethodNotImplemented \<or> errors_Is e ErrPluginUnavailable
                            then e else Wrap ''failed to check plugin health'' ErrHealthCheckFailed)))
   \<and> errors_Is (Wrap ''failed to check plugin health'' ErrHealthCheckFailed) ErrHealthCheckFailed"
  by (auto simp: CheckHealth_def StatusForbidden_def Plugin_unblocked instrument_def)

theorem CheckHealth_outcomes_witness:
  "CheckHealth (sample_manager [''loki'' \<mapsto> sample_plugin ''loki'' External ''/p/loki'' False])
       (sample_context ''loki'' ''http://denied.example'') =
     Some (Some \<lparr>Status = 403, Message = ''Access denied'', JSONDetails = []\<rparr>, None)
   \<and> CheckHealth (sample_manager [''loki'' \<mapsto> sample_plugin ''loki'' External ''/p/loki'' False])
       (sample_context ''loki'' ''http://ok.example'') =
     Some (None, Some (Wrap ''failed to check plugin health'' ErrHealthCheckFailed))"
proof -
  let ?p = "sample_plugin ''loki'' External ''/p/loki'' False"
  let ?m = "sample_manager [''loki'' \<mapsto> ?p]"
  let ?denied = "sample_context ''loki'' ''http://denied.example''"
  let ?ok = "sample_context ''loki'' ''http://ok.example''"
  have rejected: "Validate ?m (dataSourceURL ?denied) None = Some (ErrorString ''denied'')"
    by (simp add: sample_manager_simps sample_context_simps)
  have passed: "Validate ?m (dataSourceURL ?ok) None = None \<and> \<not> writer (pluginsMu ?m)
      \<and> plugins ?m (PluginID ?ok) = Some ?p \<and> \<not> IsDecommissioned ?p
      \<and> plugin_CheckHealth ?p ?ok = (None, Some (ErrorString ''connection refused''))"
    by (simp add: sample_manager_simps sample_context_simps sample_plugin_simps unlocked_def)
  from CheckHealth_outcomes [of ?m ?denied] rejected
  have first: "CheckHealth ?m ?denied =
      Some (Some \<lparr>Status = 403, Message = ''Access denied'', JSONDetails = []\<rparr>, None)"
    by blast
  from CheckHealth_outcomes [of ?m ?ok] passed
  have "CheckHealth ?m ?ok =
      Some (None, Some (if errors_Is (ErrorString ''connection refused'') ErrMethodNotImplemented
                          \<or> errors_Is (ErrorString ''connection refused'') ErrPluginUnavailable
                        then ErrorString ''connection refused''
                        else Wrap ''failed to check plugin health'' ErrHealthCheckFailed))"
    by blast
  then have second: "CheckHealth ?m ?ok =
      Some (None, Some (Wrap ''failed to check plugin health'' ErrHealthCheckFailed))"
    by simp
  from first second show ?thesis by blast
qed

text \<open>
  C9. With no writer holding the lock, an entity that is in the map and decommissioned is
  treated as an absent one: \<open>QueryData\<close> returns the empty response and a nil error,
  \<open>CollectMetrics\<close> returns \<open>ErrPluginNotRegistered\<close>, and so does \<open>CheckHealth\<close> once
  validation has passed; each result is the one the registry without the entry gives.
\<close>

theorem decommissioned_like_absent:
  assumes "\<not> writer (pluginsMu m)"
      and "plugins m pluginID = Some p" and "IsDecommissioned p"
  shows "(PluginID (PluginContext req) = pluginID \<longrightarrow>
            QueryData m req = Some (Some \<lparr>Responses = Map.empty\<rparr>, None) \<and>
            QueryData m req = QueryData (m\<lparr>plugins := (plugins m)(pluginID := None)\<rparr>) req)
       \<and> CollectMetrics m pluginID = Some (None, Some ErrPluginNotRegistered)
       \<and> CollectMetrics m pluginID =
           CollectMetrics (m\<lparr>plugins := (plugins m)(pluginID := None)\<rparr>) pluginID
       \<and> (PluginID pc = pluginID \<and> Validate m (dataSourceURL pc) None = None \<longrightarrow>
            CheckHealth m pc = Some (None, Some ErrPluginNotRegistered) \<and>
            CheckHealth m pc = CheckHealth (m\<lparr>plugins := (plugins m)(pluginID := None)\<rparr>) pc)"
  using assms by (auto simp: QueryData_def CollectMetrics_def CheckHealth_def Plugin_unblocked)

theorem decommissioned_like_absent_witness:
  "QueryData (sample_manager [''loki'' \<mapsto> sample_plugin ''loki'' External ''/p/loki'' True])
       (sample_request ''loki'') = Some (Some \<lparr>Responses = Map.empty\<rparr>, None)
   \<and> CollectMetrics (sample_manager [''loki'' \<mapsto> sample_plugin ''loki'' External ''/p/loki'' True])
       ''loki'' = Some (None, Some ErrPluginNotRegistered)
   \<and> CheckHealth (sample_manager [''loki'' \<mapsto> sample_plugin ''loki'' External ''/p/loki'' True])
       (sample_context ''loki'' ''http://ok.example'') = Some (None, Some ErrPluginNotRegistered)"
proof -
  let ?p = "sample_plugin ''loki'' External ''/p/loki'' True"
  let ?m = "sample_manager [''loki'' \<mapsto> ?p]"
  let ?ok = "sample_context ''loki'' ''http://ok.example''"
  have free: "\<not> writer (pluginsMu ?m)" by (rule sample_manager_unblocked)
  have stored: "plugins ?m ''loki'' = Some ?p" by (simp add: sample_manager_simps)
  have dec: "IsDecommissioned ?p" by (simp add: sample_plugin_simps)
  have req: "PluginID (PluginContext (sample_request ''loki'')) = ''loki''"
    by (simp add: sample_request_simps)
  have pc: "PluginID ?ok = ''loki'' \<and> Validate ?m (dataSourceURL ?ok) None = None"
    by (simp add: sample_manager_simps sample_context_simps)
  from decommissioned_like_absent [OF free stored dec, of "sample_request ''loki''" ?ok] req pc
  show ?thesis by blast
qed

text \<open>
  C10. \<open>CheckHealth\<close> validates before it looks the plugin up: when the validator rejects
  the URL, the result is the 403 "Access denied" result with a nil error whatever the
  registry holds and whatever the state of its lock, so \<open>ErrPluginNotRegistered\<close> is not
  returned, also for an id the registry does not have.
\<close>

theorem CheckHealth_validates_first:
  assumes "Validate m (dataSourceURL pc) None = Some verr"
  shows "CheckHealth (m\<lparr>plugins := reg, pluginsMu := mu\<rparr>) pc =
           Some (Some \<lparr>Status = 403, Message = ''Access denied'', JSONDetails = []\<rparr>, None)
       \<and> CheckHealth (m\<lparr>plugins := Map.empty\<rparr>) pc =
           Some (Some \<lparr>Status = 403, Message = ''Access denied'', JSONDetails = []\<rparr>, None)
       \<and> (\<forall>r. CheckHealth (m\<lparr>plugins := reg, pluginsMu := mu\<rparr>) pc \<noteq> Some (r, Some ErrPluginNotRegistered))"
  using assms by (simp add: CheckHealth_def StatusForbidden_def)

theorem CheckHealth_validates_first_witness:
  "Validate (sample_manager Map.empty) (dataSourceURL (sample_context ''tempo'' ''http://denied.example'')) None
     = Some (ErrorString ''denied'')
   \<and> plugins ((sample_manager Map.empty)\<lparr>plugins := Map.empty\<rparr>) ''tempo'' = None
   \<and> CheckHealth ((sample_manager Map.empty)\<lparr>plugins := Map.empty\<rparr>)
        (sample_context ''tempo'' ''http://denied.example'') =
       Some (Some \<lparr>Status = 403, Message = ''Access denied'', JSONDetails = []\<rparr>, None)"
proof -
  let ?m = "sample_manager Map.empty"
  let ?pc = "sample_context ''tempo'' ''http://denied.example''"
  have rejected: "Validate ?m (dataSourceURL ?pc) None = Some (ErrorString ''denied'')"
    by (simp add: sample_manager_simps sample_context_simps)
  have absent: "plugins (?m\<lparr>plugins := Map.empty\<rparr>) ''tempo'' = None" by simp
  from CheckHealth_validates_first [OF rejected]
  have "CheckHealth (?m\<lparr>plugins := Map.empty\<rparr>) ?pc =
      Some (Some \<lparr>Status = 403, Message = ''Access denied'', JSONDetails = []\<rparr>, None)"
    by blast
  with rejected absent show ?thesis by blast
qed


section \<open>Uninstall\<close>

text \<open>
  \<open>UnregisterAndStop\<close> does not return: it asks for the read lock, in \<open>Plugin\<close>, while it
  holds the write lock.
\<close>

lemma UnregisterAndStop_blocks: "UnregisterAndStop m pluginID = None"
proof (cases "Lock m")
  case None
  then show ?thesis by (simp add: UnregisterAndStop_def)
next
  case (Some m1)
  then have "writer (pluginsMu m1)"
    by (auto simp: Lock_def split: if_splits)
  then have "Plugin m1 pluginID = None" by (rule Plugin_blocked)
  with Some show ?thesis by (simp add: UnregisterAndStop_def)
qed

text \<open>Whenever \<open>Uninstall\<close> returns, it returns an error and has changed nothing.\<close>

lemma Uninstall_frame:
  "Uninstall m pluginID = Some (err, m') \<Longrightarrow> m' = m \<and> err \<noteq> None"
  by (auto simp: Uninstall_def IsRegistered_def UnregisterAndStop_blocks
           dest: Plugin_eligible
           split: option.splits if_splits sum.splits bind_splits)

lemma Plugin_sample_manager:
  "Plugin (sample_manager reg) pluginID =
     Some (case reg pluginID of
             None \<Rightarrow> None
           | Some p \<Rightarrow> if IsDecommissioned p then None else Some p)"
  using Plugin_unblocked [OF sample_manager_unblocked, of reg pluginID]
  by (simp add: sample_manager_simps)

lemma Rel_parent_directory:
  "Rel ''/var/lib/grafana/plugins'' ''/var/lib/grafana'' = Inr ''..''"
  by code_simp

text \<open>
  What the checks of \<open>Uninstall\<close> reject, with no writer holding the lock: an absent or
  decommissioned id gives \<open>ErrPluginNotInstalled\<close>, a plugin that is not external gives
  \<open>ErrUninstallCorePlugin\<close>, and an external plugin for whose directory \<^verbatim>\<open>filepath.Rel\<close>
  fails or gives a path that starts with \<open>../\<close> gives \<open>ErrUninstallOutsideOfPluginDir\<close>;
  each with the registry and the files as they were.
\<close>

lemma Uninstall_checks:
  assumes "\<not> writer (pluginsMu m)"
  shows "(plugins m pluginID = None \<or> (\<exists>p. plugins m pluginID = Some p \<and> IsDecommissioned p)
            \<longrightarrow> Uninstall m pluginID = Some (Some ErrPluginNotInstalled, m))
       \<and> (\<forall>p. plugins m pluginID = Some p \<and> \<not> IsDecommissioned p \<and> \<not> IsExternalPlugin p
            \<longrightarrow> Uninstall m pluginID = Some (Some ErrUninstallCorePlugin, m))
       \<and> (\<forall>p. plugins m pluginID = Some p \<and> \<not> IsDecommissioned p \<and> IsExternalPlugin p
              \<and> ((\<exists>err. Rel (PluginsPath m) (PluginDir p) = Inl err) \<or>
                  (\<exists>path. Rel (PluginsPath m) (PluginDir p) = Inr path \<and> prefix ''../'' path))
            \<longrightarrow> Uninstall m pluginID = Some (Some ErrUninstallOutsideOfPluginDir, m))"
  using assms by (auto simp: Uninstall_def Plugin_unblocked Separator_def)

text \<open>
  C1. A dispatch-eligible external plugin is recorded with the directory
  \<open>/var/lib/grafana\<close>, the parent of the plugins root \<open>/var/lib/grafana/plugins\<close>. Its
  path relative to the root is \<open>..\<close>: one element, the traversal element, so the directory
  is not under the root. The path does not start with \<open>../\<close>, the check lets it through,
  and \<open>Uninstall\<close> does not fail with \<open>ErrUninstallOutsideOfPluginDir\<close>: it goes on to
  \<open>UnregisterAndStop\<close> (and does not return from it).
\<close>

theorem Uninstall_parent_directory_not_rejected:
  "plugins (sample_manager [''loki'' \<mapsto> sample_plugin ''loki'' External ''/var/lib/grafana'' False]) ''loki''
     = Some (sample_plugin ''loki'' External ''/var/lib/grafana'' False)
   \<and> IsExternalPlugin (sample_plugin ''loki'' External ''/var/lib/grafana'' False)
   \<and> Rel (PluginsPath (sample_manager [''loki'' \<mapsto> sample_plugin ''loki'' External ''/var/lib/grafana'' False]))
          (PluginDir (sample_plugin ''loki'' External ''/var/lib/grafana'' False)) = Inr ''..''
   \<and> split_path ''..'' = [''..'']
   \<and> \<not> prefix (''..'' @ [Separator]) ''..''
   \<and> Uninstall (sample_manager [''loki'' \<mapsto> sample_plugin ''loki'' External ''/var/lib/grafana'' False]) ''loki''
       = None
   \<and> Uninstall (sample_manager [''loki'' \<mapsto> sample_plugin ''loki'' External ''/var/lib/grafana'' False]) ''loki''
       \<noteq> Some (Some ErrUninstallOutsideOfPluginDir,
                sample_manager [''loki'' \<mapsto> sample_plugin ''loki'' External ''/var/lib/grafana'' False])"
proof -
  let ?p = "sample_plugin ''loki'' External ''/var/lib/grafana'' False"
  let ?m = "sample_manager [''loki'' \<mapsto> ?p]"
  have stored: "plugins ?m ''loki'' = Some ?p" by (simp add: sample_manager_simps)
  have ext: "IsExternalPlugin ?p" by (simp add: sample_plugin_simps)
  have rel: "Rel (PluginsPath ?m) (PluginDir ?p) = Inr ''..''"
    by (simp only: sample_manager_simps sample_plugin_simps Rel_parent_directory)
  have elems: "split_path ''..'' = [''..'']" by (simp add: Separator_def)
  have pre: "\<not> prefix (''..'' @ [Separator]) ''..''" by (simp add: Separator_def)
  have found: "Plugin ?m ''loki'' = Some (Some ?p)"
    by (simp add: Plugin_sample_manager sample_plugin_simps)
  then have "IsRegistered ?m ''loki'' = Some True"
    by (simp add: IsRegistered_def sample_plugin_simps)
  with found have blocks: "Uninstall ?m ''loki'' = None"
    by (simp add: Uninstall_def sample_plugin_simps sample_manager_simps Rel_parent_directory
                  Separator_def UnregisterAndStop_blocks)
  from stored ext rel elems pre blocks show ?thesis by simp
qed

section \<open>Resource stream bridge\<close>

lemma flushStream_loop_chunks:
  "flushStream_loop n (map chunk cs @ later) cl w lg =
     (let (w', lg') = writeChunks n cs w lg
      in flushStream_loop (n + length cs) later cl w' lg')"
  by (induction cs arbitrary: n w lg) (auto simp: chunk_def split: prod.splits)

text \<open>
  The calls a chunk makes on the writer: the status first, for the first chunk when it has
  headers; then the body; then the flush, when the writer can flush.
\<close>

lemma writeChunk_calls:
  "calls (fst (writeChunk n r w lg)) =
     calls w
     @ (if n = 0 \<and> Headers r \<noteq> None then [WriteHeader (StatusCode r)] else [])
     @ [Write (Body r)]
     @ (if flusher w then [Flush] else [])"
  by (auto simp: writeChunk_def writeHeaders_def w_WriteHeader_def w_Write_def w_Flush_def Let_def
           split: option.splits)

text \<open>Only the first chunk, and only when it has headers, changes the header map.\<close>

lemma writeChunk_header:
  "header (fst (writeChunk n r w lg)) =
     (case Headers r of
        Some hs \<Rightarrow> if n = 0 then copyHeaders (header w) (ensureContentType hs) else header w
      | None \<Rightarrow> header w)"
  by (auto simp: writeChunk_def writeHeaders_def w_WriteHeader_def w_Write_def w_Flush_def Let_def
           split: option.splits)

text \<open>The entries whose key is exactly \<open>Set-Cookie\<close> add nothing to the header map.\<close>

lemma copyHeaders_skips_exact_key:
  "copyHeaders h hs = copyHeaders h (filter (\<lambda>(k, values). k \<noteq> ''Set-Cookie'') hs)"
  by (induction h hs rule: copyHeaders.induct) auto

lemma ensureContentType_default:
  "map_of hs ''Content-Type'' = None \<Longrightarrow>
   map_of (ensureContentType hs) ''Content-Type'' = Some [''application/json'']"
  by (simp add: ensureContentType_def map_add_def)

text \<open>
  C2. The plugin's first chunk carries the header \<open>set-cookie\<close>, spelt in lower case. The
  comparison with \<open>Set-Cookie\<close> does not match it, and \<^verbatim>\<open>Header.Add\<close> stores its value
  under the canonical key: the response written for the client has the header
  \<open>Set-Cookie\<close> with the plugin's cookie (beside the defaulted \<open>Content-Type\<close>, one status,
  the body and the flush).
\<close>

theorem flushStream_forwards_lowercase_set_cookie:
  "map_option (\<lambda>(err, s, w, lg). (err, header w ''Set-Cookie'', header w ''Content-Type'', calls w))
     (flushStream
        \<lparr>recvs = [chunk \<lparr>StatusCode = 200,
                          Headers = Some [(''set-cookie'', [''session=abc''])],
                          Body = ''{}''\<rparr>,
                   (None, Some EOF)],
         closed = False\<rparr>
        sample_writer) =
   Some (None, Some [''session=abc''], Some [''application/json''],
         [WriteHeader 200, Write ''{}'', Flush])"
  by code_simp

text \<open>
  C8. A receive error that is end-of-stream, with no chunk processed, makes the loop
  return the error "received empty resource response". Any other receive error, with no
  chunk processed, is returned wrapped. After at least one chunk, a receive error that is
  not end-of-stream is logged, the stream is closed, and the loop returns what \<open>Close\<close>
  returns (nil, or the error of closing a closed stream), not the receive error.
\<close>

theorem flushStream_failure_policy:
  "(errors_Is e EOF \<longrightarrow>
      flushStream \<lparr>recvs = (r, Some e) # rest, closed = cl\<rparr> w =
        Some (Some (ErrorString ''received empty resource response''),
              \<lparr>recvs = rest, closed = cl\<rparr>, w, []))
   \<and> (\<not> errors_Is e EOF \<longrightarrow>
      flushStream \<lparr>recvs = (r, Some e) # rest, closed = cl\<rparr> w =
        Some (Some (Wrap ''failed to receive response from resource call'' e),
              \<lparr>recvs = rest, closed = cl\<rparr>, w, []))
   \<and> (\<not> errors_Is e EOF \<and> cs \<noteq> [] \<longrightarrow>
      flushStream \<lparr>recvs = map chunk cs @ (r, Some e) # rest, closed = cl\<rparr> w =
        Some (if cl then Some (ErrorString ''cannot close a closed stream'') else None,
              \<lparr>recvs = rest, closed = True\<rparr>,
              fst (writeChunks 0 cs w []),
              snd (writeChunks 0 cs w []) @ [(''Failed to receive response from resource call'', e)]))"
  by (auto simp: flushStream_def flushStream_loop_chunks Close_def split: prod.splits)

theorem flushStream_failure_policy_witness:
  "flushStream \<lparr>recvs = [(None, Some EOF)], closed = False\<rparr> sample_writer =
     Some (Some (ErrorString ''received empty resource response''),
           \<lparr>recvs = [], closed = False\<rparr>, sample_writer, [])
   \<and> flushStream \<lparr>recvs = [(None, Some DeadlineExceeded)], closed = False\<rparr> sample_writer =
     Some (Some (Wrap ''failed to receive response from resource call'' DeadlineExceeded),
           \<lparr>recvs = [], closed = False\<rparr>, sample_writer, [])
   \<and> map_option (\<lambda>(err, s, w, lg). (err, closed s, lg))
       (flushStream
          \<lparr>recvs = map chunk [\<lparr>StatusCode = 200, Headers = None, Body = ''a''\<rparr>]
                   @ [(None, Some DeadlineExceeded)],
           closed = False\<rparr> sample_writer) =
     Some (None, True, [(''Failed to receive response from resource call'', DeadlineExceeded)])"
proof -
  have eof: "errors_Is EOF EOF" and other: "\<not> errors_Is DeadlineExceeded EOF"
    by simp_all
  from flushStream_failure_policy [of EOF None "[]" False sample_writer] eof
  have first: "flushStream \<lparr>recvs = [(None, Some EOF)], closed = False\<rparr> sample_writer =
      Some (Some (ErrorString ''received empty resource response''),
            \<lparr>recvs = [], closed = False\<rparr>, sample_writer, [])"
    by blast
  from flushStream_failure_policy [of DeadlineExceeded None "[]" False sample_writer] other
  have second: "flushStream \<lparr>recvs = [(None, Some DeadlineExceeded)], closed = False\<rparr> sample_writer =
      Some (Some (Wrap ''failed to receive response from resource call'' DeadlineExceeded),
            \<lparr>recvs = [], closed = False\<rparr>, sample_writer, [])"
    by blast
  let ?cs = "[\<lparr>StatusCode = 200, Headers = None, Body = ''a''\<rparr>]"
  have ne: "?cs \<noteq> []" by simp
  from flushStream_failure_policy [of DeadlineExceeded None "[]" False sample_writer ?cs] other ne
  have "flushStream \<lparr>recvs = map chunk ?cs @ [(None, Some DeadlineExceeded)], closed = False\<rparr> sample_writer =
      Some (if False then Some (ErrorString ''cannot close a closed stream'') else None,
            \<lparr>recvs = [], closed = True\<rparr>,
            fst (writeChunks 0 ?cs sample_writer []),
            snd (writeChunks 0 ?cs sample_writer [])
              @ [(''Failed to receive response from resource call'', DeadlineExceeded)])"
    by blast
  then have third: "map_option (\<lambda>(err, s, w, lg). (err, closed s, lg))
       (flushStream \<lparr>recvs = map chunk ?cs @ [(None, Some DeadlineExceeded)], closed = False\<rparr> sample_writer) =
     Some (None, True, [(''Failed to receive response from resource call'', DeadlineExceeded)])"
    by (simp add: writeChunk_def w_Write_def w_Flush_def sample_writer_def)
  from first second third show ?thesis by blast
qed

section \<open>Process supervision\<close>

lemma restart_count:
  "count_list (snd (restartKilledProcess evs acts)) StartCalled =
     count_list acts StartCalled + length (filter restarts (takeWhile (\<lambda>ev. \<not> ends_loop ev) evs))"
  by (induction evs acts rule: restartKilledProcess.induct)
     (auto simp: ends_loop_def restarts_def Let_def split: option.splits)

lemma restart_returns:
  "(fst (restartKilledProcess evs acts) \<noteq> None) = list_ex ends_loop evs"
  by (induction evs acts rule: restartKilledProcess.induct)
     (auto simp: ends_loop_def Let_def split: option.splits)

text \<open>
  C6. A tick that finds the plugin decommissioned ends the loop with a nil error and no
  call of \<open>Start\<close>. A tick that finds it not decommissioned and exited calls \<open>Start\<close> once
  and the loop goes on with the next round, whether \<open>Start\<close> failed or not; a tick that
  finds it running goes on without a call. A done context ends the loop, with the
  context's error unless that error is cancellation (or nil). In all, \<open>Start\<close> is called
  once for each restarting tick before the first round that ends the loop and never
  after it, and the loop returns exactly when such a round comes.
\<close>

theorem restartKilledProcess_supervision:
  "restartKilledProcess (Tick True exited started # evs) acts =
      (Some None, acts @ [LogDebug ''Plugin decommissioned''])
   \<and> restartKilledProcess (Tick False True started # evs) acts =
      restartKilledProcess evs
        (acts @ [LogDebug ''Restarting plugin'', StartCalled,
                 (case started of Some e \<Rightarrow> LogError ''Failed to restart plugin'' e
                                | None \<Rightarrow> LogDebug ''Plugin restarted'')])
   \<and> restartKilledProcess (Tick False False started # evs) acts = restartKilledProcess evs acts
   \<and> restartKilledProcess (CtxDone cerr # evs) acts =
      (Some (case cerr of Some e \<Rightarrow> if errors_Is e Canceled then None else Some e | None \<Rightarrow> None), acts)
   \<and> count_list (snd (restartKilledProcess evs acts)) StartCalled =
      count_list acts StartCalled + length (filter restarts (takeWhile (\<lambda>ev. \<not> ends_loop ev) evs))
   \<and> (fst (restartKilledProcess evs acts) \<noteq> None) = list_ex ends_loop evs"
proof (intro conjI)
  show "restartKilledProcess (Tick True exited started # evs) acts =
      (Some None, acts @ [LogDebug ''Plugin decommissioned''])"
    by simp
  show "restartKilledProcess (Tick False True started # evs) acts =
      restartKilledProcess evs
        (acts @ [LogDebug ''Restarting plugin'', StartCalled,
                 (case started of Some e \<Rightarrow> LogError ''Failed to restart plugin'' e
                                | None \<Rightarrow> LogDebug ''Plugin restarted'')])"
    by (simp split: option.splits)
  show "restartKilledProcess (Tick False False started # evs) acts = restartKilledProcess evs acts"
    by simp
  show "restartKilledProcess (CtxDone cerr # evs) acts =
      (Some (case cerr of Some e \<Rightarrow> if errors_Is e Canceled then None else Some e | None \<Rightarrow> None), acts)"
    by (simp split: option.splits)
  show "count_list (snd (restartKilledProcess evs acts)) StartCalled =
      count_list acts StartCalled + length (filter restarts (takeWhile (\<lambda>ev. \<not> ends_loop ev) evs))"
    by (rule restart_count)
  show "(fst (restartKilledProcess evs acts) \<noteq> None) = list_ex ends_loop evs"
    by (rule restart_returns)
qed

theorem restartKilledProcess_supervision_witness:
  "restartKilledProcess
     [Tick False True (Some (ErrorString ''exec failed'')), Tick False False None,
      Tick False True None, Tick True True None, Tick False True None] [] =
   (Some None,
    [LogDebug ''Restarting plugin'', StartCalled, LogError ''Failed to restart plugin'' (ErrorString ''exec failed''),
     LogDebug ''Restarting plugin'', StartCalled, LogDebug ''Plugin restarted'',
     LogDebug ''Plugin decommissioned''])
   \<and> restartKilledProcess [Tick False True None, CtxDone (Some DeadlineExceeded)] [] =
   (Some (Some DeadlineExceeded), [LogDebug ''Restarting plugin'', StartCalled, LogDebug ''Plugin restarted''])
   \<and> restartKilledProcess [CtxDone (Some Canceled)] [] = (Some None, [])"
  using restartKilledProcess_supervision
          [where exited = True and started = None and evs = "[Tick False True None]"
             and acts = "[LogDebug ''Restarting plugin'', StartCalled,
                LogError ''Failed to restart plugin'' (ErrorString ''exec failed''),
                LogDebug ''Restarting plugin'', StartCalled, LogDebug ''Plugin restarted'']"
             and cerr = "Some Canceled"]
  by simp

end
